theory Spec2Isabelle
  imports Main "HOL-Library.Sublist"
begin

section \<open>Data model\<close>

text \<open>
  The command \<^verbatim>\<open>eksctl create iamserviceaccount\<close> of
  \<^verbatim>\<open>pkg/ctl/create/iamserviceaccount.go\<close>. A Go \<^verbatim>\<open>error\<close> is a value of
  \<open>error option\<close>, \<open>None\<close> being \<^verbatim>\<open>nil\<close>; a Go pointer field that may be
  \<^verbatim>\<open>nil\<close> is an \<open>option\<close>.
\<close>

datatype error = Error string

text \<open>
  \<^verbatim>\<open>context.Context\<close>: \<open>Background\<close> is the value of \<^verbatim>\<open>context.Background()\<close>,
  the root context that is never cancelled and has no deadline; the other constructors
  are the contexts a caller derives from a parent.
\<close>

datatype go_context = Background | WithCancel go_context | WithDeadline go_context nat

fun carries_signal :: "go_context \<Rightarrow> bool" where
  "carries_signal Background = False"
| "carries_signal (WithCancel c) = True"
| "carries_signal (WithDeadline c d) = True"

record cluster_meta =
  meta_Name :: string
  meta_Region :: string

record cluster_iam_service_account =
  sa_Name :: string
  sa_Namespace :: string
  sa_AttachPolicyARNs :: "string list"
  sa_AttachRoleARN :: string
  sa_RoleName :: string
  sa_RoleOnly :: "bool option"
  sa_Tags :: "string \<rightharpoonup> string"

record cluster_iam =
  WithOIDC :: "bool option"
  OIDCThumbprint :: "string option"
  ServiceAccounts :: "cluster_iam_service_account list"

record cluster_config =
  Metadata :: cluster_meta
  IAM :: cluster_iam

text \<open>The fields of \<^verbatim>\<open>cmdutils.Cmd\<close> that this file reads or writes.\<close>

record cmd =
  ClusterConfig :: cluster_config
  NameArg :: string
  Plan :: bool

section \<open>Command set-up and flags\<close>

text \<open>
  The variables that \<^verbatim>\<open>createIAMServiceAccountCmdWithRunFunc\<close> binds to flags:
  the fields of the one \<^verbatim>\<open>serviceAccount\<close> it allocates, the cell \<^verbatim>\<open>roleOnly\<close>
  (shared with \<^verbatim>\<open>serviceAccount.RoleOnly\<close>), the package-level
  \<^verbatim>\<open>oIDCThumbprint\<close> and the local \<^verbatim>\<open>overrideExistingServiceAccounts\<close>.
\<close>

record flag_vars =
  v_name :: string
  v_namespace :: string
  v_attach_policy_arn :: "string list"
  v_attach_role_arn :: string
  v_role_name :: string
  v_role_only :: bool
  v_oidc_thumbprint :: string
  v_tags :: "string \<rightharpoonup> string"
  v_override_existing_serviceaccounts :: bool

text \<open>
  Every \<^verbatim>\<open>fs.StringVar\<close>, \<^verbatim>\<open>fs.BoolVar\<close>, \<^verbatim>\<open>fs.StringSliceVar\<close> call stores
  its default in the bound variable when the flag is registered (lines 53 to 63).
\<close>

definition registered_defaults :: flag_vars where
  "registered_defaults =
     \<lparr> v_name = '''',
       v_namespace = ''default'',
       v_attach_policy_arn = [],
       v_attach_role_arn = '''',
       v_role_name = '''',
       v_role_only = False,
       v_oidc_thumbprint = '''',
       v_tags = Map.empty,
       v_override_existing_serviceaccounts = False \<rparr>"

text \<open>
  One flag occurrence on the operator's command line. \<^verbatim>\<open>--tags\<close> is bound to a
  Go map: a key given again, in the same occurrence or in a later one, replaces the
  value stored before.
\<close>

datatype flag_arg =
    Flag_name string
  | Flag_namespace string
  | Flag_attach_policy_arn "string list"
  | Flag_attach_role_arn string
  | Flag_role_name string
  | Flag_role_only bool
  | Flag_oidc_thumbprint string
  | Flag_tags "(string \<times> string) list"
  | Flag_override_existing_serviceaccounts bool

fun set_flag :: "flag_arg \<Rightarrow> flag_vars \<Rightarrow> flag_vars" where
  "set_flag (Flag_name s) v = v\<lparr>v_name := s\<rparr>"
| "set_flag (Flag_namespace s) v = v\<lparr>v_namespace := s\<rparr>"
| "set_flag (Flag_attach_policy_arn xs) v = v\<lparr>v_attach_policy_arn := v_attach_policy_arn v @ xs\<rparr>"
| "set_flag (Flag_attach_role_arn s) v = v\<lparr>v_attach_role_arn := s\<rparr>"
| "set_flag (Flag_role_name s) v = v\<lparr>v_role_name := s\<rparr>"
| "set_flag (Flag_role_only b) v = v\<lparr>v_role_only := b\<rparr>"
| "set_flag (Flag_oidc_thumbprint s) v = v\<lparr>v_oidc_thumbprint := s\<rparr>"
| "set_flag (Flag_tags kvs) v = v\<lparr>v_tags := v_tags v ++ map_of (rev kvs)\<rparr>"
| "set_flag (Flag_override_existing_serviceaccounts b) v =
     v\<lparr>v_override_existing_serviceaccounts := b\<rparr>"

definition parse_flags :: "flag_arg list \<Rightarrow> flag_vars" where
  "parse_flags args = fold set_flag args registered_defaults"

fun is_namespace_flag :: "flag_arg \<Rightarrow> bool" where
  "is_namespace_flag (Flag_namespace s) = True"
| "is_namespace_flag a = False"

fun is_role_only_flag :: "flag_arg \<Rightarrow> bool" where
  "is_role_only_flag (Flag_role_only b) = True"
| "is_role_only_flag a = False"

fun is_override_flag :: "flag_arg \<Rightarrow> bool" where
  "is_override_flag (Flag_override_existing_serviceaccounts b) = True"
| "is_override_flag a = False"

text \<open>
  The \<^verbatim>\<open>serviceAccount\<close> object as the run function finds it: its fields are the
  bound variables, and \<^verbatim>\<open>RoleOnly\<close> points at the \<^verbatim>\<open>roleOnly\<close> cell.
\<close>

definition serviceAccount :: "flag_vars \<Rightarrow> cluster_iam_service_account" where
  "serviceAccount v =
     \<lparr> sa_Name = v_name v,
       sa_Namespace = v_namespace v,
       sa_AttachPolicyARNs = v_attach_policy_arn v,
       sa_AttachRoleARN = v_attach_role_arn v,
       sa_RoleName = v_role_name v,
       sa_RoleOnly = Some (v_role_only v),
       sa_Tags = v_tags v \<rparr>"

text \<open>
  Lines 30 to 39: \<open>cfg0\<close> is what \<^verbatim>\<open>api.NewClusterConfig()\<close> returns (that
  function is not part of this file, so its result is a parameter).
\<close>

definition setup_config :: "cluster_config \<Rightarrow> flag_vars \<Rightarrow> cluster_config" where
  "setup_config cfg0 v =
     cfg0\<lparr>IAM := (IAM cfg0)\<lparr>WithOIDC := Some True,
                             ServiceAccounts := ServiceAccounts (IAM cfg0) @ [serviceAccount v]\<rparr>\<rparr>"

section \<open>The run function\<close>

text \<open>
  Lines 85 to 87: the thumbprint is stored only when the flag variable is not empty. The
  source stores the address of the variable; the run does not write the variable, so the
  field is modelled by the value.
\<close>

definition assign_thumbprint :: "string \<Rightarrow> cluster_config \<Rightarrow> cluster_config" where
  "assign_thumbprint oIDCThumbprint cfg =
     (if oIDCThumbprint \<noteq> '''' then cfg\<lparr>IAM := (IAM cfg)\<lparr>OIDCThumbprint := Some oIDCThumbprint\<rparr>\<rparr>
      else cfg)"

datatype warning =
    Warn_no_oidc_provider string string
  | Warn_role_only
  | Warn_override_no_effect
  | Warn_override_updates_metadata
  | Warn_existing_excluded

text \<open>
  What a run does, in order: each call to a collaborator with the arguments it received
  and the error it returned, and each warning logged.
\<close>

datatype event =
    Call_Load "error option"
  | Call_NewProviderForExistingCluster go_context "error option"
  | Call_CanOperate cluster_config bool "error option"
  | Call_NewStdClientSet cluster_config "error option"
  | Call_NewOpenIDConnectManager go_context cluster_config "error option"
  | Call_CheckProviderExists go_context bool "error option"
  | Log_Warning warning
  | Call_NewStackManager cluster_config
  | Call_SetExcludeExistingFilter go_context "cluster_iam_service_account list" bool "error option"
  | Call_FilterMatching "cluster_iam_service_account list" "cluster_iam_service_account list"
  | Call_LogInfo "cluster_iam_service_account list"
  | Call_LogObj cluster_config "error option"
  | Call_CreateIAMServiceAccount "cluster_iam_service_account list" bool "error option"

text \<open>
  The collaborators of \<^verbatim>\<open>doCreateIAMServiceAccount\<close>, none of which is defined in
  this file: each is a parameter, a function of the arguments the source passes.
  \<open>'f\<close> is the state of the \<^verbatim>\<open>IAMServiceAccountFilter\<close> object. The loader and
  \<^verbatim>\<open>SetExcludeExistingFilter\<close> exist to fill the object they are handed, so they
  return the new object; the other collaborators are taken to read the configuration
  they receive. \<^verbatim>\<open>NewStackManager\<close>, \<^verbatim>\<open>FilterMatching\<close>, \<^verbatim>\<open>LogInfo\<close> and
  \<^verbatim>\<open>printers.NewJSONPrinter\<close> return no error.
\<close>

record 'f collaborators =
  NewIAMServiceAccountFilter :: 'f
  Load :: "cmd \<Rightarrow> 'f \<Rightarrow> error option \<times> cmd \<times> 'f"
  NewProviderForExistingCluster :: "go_context \<Rightarrow> error option"
  CanOperate :: "cluster_config \<Rightarrow> bool \<times> error option"
  NewStdClientSet :: "cluster_config \<Rightarrow> error option"
  NewOpenIDConnectManager :: "go_context \<Rightarrow> cluster_config \<Rightarrow> error option"
  CheckProviderExists :: "go_context \<Rightarrow> bool \<times> error option"
  SetExcludeExistingFilter ::
    "'f \<Rightarrow> go_context \<Rightarrow> cluster_iam_service_account list \<Rightarrow> bool \<Rightarrow> error option \<times> 'f"
  FilterMatching :: "'f \<Rightarrow> cluster_iam_service_account list \<Rightarrow> cluster_iam_service_account list"
  LogObj :: "cluster_config \<Rightarrow> error option"
  CreateIAMServiceAccount :: "cluster_iam_service_account list \<Rightarrow> bool \<Rightarrow> error option"

text \<open>Lines 129 to 138: the warnings of the mode selection, in the order logged.\<close>

definition mode_warnings :: "bool \<Rightarrow> bool \<Rightarrow> warning list" where
  "mode_warnings roleOnly overrideExistingServiceAccounts =
     (if roleOnly then
        Warn_role_only #
          (if overrideExistingServiceAccounts then [Warn_override_no_effect] else [])
      else if overrideExistingServiceAccounts then [Warn_override_updates_metadata]
      else [Warn_existing_excluded])"

datatype mode = Role_only | Override_existing | Default_mode

text \<open>Lines 120 to 144: what follows the OIDC provider gate.\<close>

definition after_gate ::
  "'f collaborators \<Rightarrow> go_context \<Rightarrow> cmd \<Rightarrow> cluster_config \<Rightarrow> 'f \<Rightarrow> bool \<Rightarrow> bool
     \<Rightarrow> event list \<times> error option" where
  "after_gate env ctx cmd cfg saFilter overrideExistingServiceAccounts roleOnly =
     (let sas = ServiceAccounts (IAM cfg);
          (err, saFilter') =
             SetExcludeExistingFilter env saFilter ctx sas overrideExistingServiceAccounts;
          t1 = [Call_NewStackManager cfg,
                Call_SetExcludeExistingFilter ctx sas overrideExistingServiceAccounts err]
      in if err \<noteq> None then (t1, err)
         else
           let filteredServiceAccounts = FilterMatching env saFilter' sas;
               t2 = t1 @ [Call_FilterMatching sas filteredServiceAccounts, Call_LogInfo sas]
                       @ map Log_Warning (mode_warnings roleOnly overrideExistingServiceAccounts);
               err2 = LogObj env cfg;
               t3 = t2 @ [Call_LogObj cfg err2]
           in if err2 \<noteq> None then (t3, err2)
              else
                let err3 = CreateIAMServiceAccount env filteredServiceAccounts (Plan cmd)
                in (t3 @ [Call_CreateIAMServiceAccount filteredServiceAccounts (Plan cmd) err3],
                    err3))"

text \<open>Lines 101 to 119: client set, OIDC manager and the OIDC provider gate.\<close>

definition oidc_gate ::
  "'f collaborators \<Rightarrow> go_context \<Rightarrow> cmd \<Rightarrow> cluster_config \<Rightarrow> 'f \<Rightarrow> bool \<Rightarrow> bool
     \<Rightarrow> event list \<times> error option" where
  "oidc_gate env ctx cmd cfg saFilter overrideExistingServiceAccounts roleOnly =
     (let meta = Metadata (ClusterConfig cmd);
          err1 = NewStdClientSet env cfg;
          t1 = [Call_NewStdClientSet cfg err1]
      in if err1 \<noteq> None then (t1, err1)
         else
           let err2 = NewOpenIDConnectManager env ctx cfg;
               t2 = t1 @ [Call_NewOpenIDConnectManager ctx cfg err2]
           in if err2 \<noteq> None then (t2, err2)
              else
                let (providerExists, err3) = CheckProviderExists env ctx;
                    t3 = t2 @ [Call_CheckProviderExists ctx providerExists err3]
                in if err3 \<noteq> None then (t3, err3)
                   else if \<not> providerExists then
                     (t3 @ [Log_Warning (Warn_no_oidc_provider (meta_Region meta) (meta_Name meta))],
                      Some (Error ''unable to create iamserviceaccount(s) without IAM OIDC provider enabled''))
                   else
                     let (t4, r) = after_gate env ctx cmd cfg saFilter
                                     overrideExistingServiceAccounts roleOnly
                     in (t3 @ t4, r))"

text \<open>
  \<^verbatim>\<open>doCreateIAMServiceAccount\<close> (lines 75 to 144). \<open>oIDCThumbprint\<close> is the
  package-level variable, read once at line 85. The result is the trace of the run and
  the error returned.
\<close>

definition doCreateIAMServiceAccount ::
  "'f collaborators \<Rightarrow> string \<Rightarrow> cmd \<Rightarrow> bool \<Rightarrow> bool \<Rightarrow> event list \<times> error option" where
  "doCreateIAMServiceAccount env oIDCThumbprint cmd0 overrideExistingServiceAccounts roleOnly =
     (let saFilter0 = NewIAMServiceAccountFilter env;
          (err1, cmd1, saFilter) = Load env cmd0 saFilter0;
          t1 = [Call_Load err1]
      in if err1 \<noteq> None then (t1, err1)
         else
           let cfg = assign_thumbprint oIDCThumbprint (ClusterConfig cmd1);
               cmd = cmd1\<lparr>ClusterConfig := cfg\<rparr>;
               ctx = Background;
               err2 = NewProviderForExistingCluster env ctx;
               t2 = t1 @ [Call_NewProviderForExistingCluster ctx err2]
           in if err2 \<noteq> None then (t2, err2)
              else
                let (ok, err3) = CanOperate env cfg;
                    t3 = t2 @ [Call_CanOperate cfg ok err3]
                in if \<not> ok then (t3, err3)
                   else
                     let (t4, r) = oidc_gate env ctx cmd cfg saFilter
                                     overrideExistingServiceAccounts roleOnly
                     in (t3 @ t4, r))"

text \<open>
  Lines 19 to 23 and 45 to 48: the \<^verbatim>\<open>RunE\<close> closure of
  \<^verbatim>\<open>createIAMServiceAccountCmd\<close>, whose run function is
  \<^verbatim>\<open>doCreateIAMServiceAccount\<close>. The \<^verbatim>\<open>*cobra.Command\<close> it
  receives, which is where the caller's context travels, is bound to \<^verbatim>\<open>_\<close> and never
  read. \<open>GetNameArg\<close> is \<^verbatim>\<open>cmdutils.GetNameArg\<close>, and \<open>cmd0\<close> is the
  \<^verbatim>\<open>cmdutils.Cmd\<close> as the other flag helpers filled it; both are parameters.
\<close>

record cobra_command =
  cobra_ctx :: go_context

definition RunE ::
  "'f collaborators \<Rightarrow> (string list \<Rightarrow> string) \<Rightarrow> cmd \<Rightarrow> cluster_config \<Rightarrow> flag_arg list
     \<Rightarrow> cobra_command \<Rightarrow> string list \<Rightarrow> event list \<times> error option" where
  "RunE env GetNameArg cmd0 cfg0 flag_args cobra args =
     (let v = parse_flags flag_args;
          cmd = cmd0\<lparr>ClusterConfig := setup_config cfg0 v, NameArg := GetNameArg args\<rparr>
      in doCreateIAMServiceAccount env (v_oidc_thumbprint v) cmd
           (v_override_existing_serviceaccounts v) (v_role_only v))"

section \<open>Reading a trace\<close>

datatype step =
    S_Load
  | S_NewProviderForExistingCluster
  | S_CanOperate
  | S_NewStdClientSet
  | S_NewOpenIDConnectManager
  | S_CheckProviderExists
  | S_Warning warning
  | S_NewStackManager
  | S_SetExcludeExistingFilter
  | S_FilterMatching
  | S_LogInfo
  | S_LogObj
  | S_CreateIAMServiceAccount

fun step_of :: "event \<Rightarrow> step" where
  "step_of (Call_Load e) = S_Load"
| "step_of (Call_NewProviderForExistingCluster c e) = S_NewProviderForExistingCluster"
| "step_of (Call_CanOperate cfg ok e) = S_CanOperate"
| "step_of (Call_NewStdClientSet cfg e) = S_NewStdClientSet"
| "step_of (Call_NewOpenIDConnectManager c cfg e) = S_NewOpenIDConnectManager"
| "step_of (Call_CheckProviderExists c b e) = S_CheckProviderExists"
| "step_of (Log_Warning w) = S_Warning w"
| "step_of (Call_NewStackManager cfg) = S_NewStackManager"
| "step_of (Call_SetExcludeExistingFilter c sas ov e) = S_SetExcludeExistingFilter"
| "step_of (Call_FilterMatching sas out) = S_FilterMatching"
| "step_of (Call_LogInfo sas) = S_LogInfo"
| "step_of (Call_LogObj cfg e) = S_LogObj"
| "step_of (Call_CreateIAMServiceAccount sas plan e) = S_CreateIAMServiceAccount"

text \<open>The error value a call returned (\<open>None\<close> for \<^verbatim>\<open>nil\<close> and for calls that return none).\<close>

fun returned_error :: "event \<Rightarrow> error option" where
  "returned_error (Call_Load e) = e"
| "returned_error (Call_NewProviderForExistingCluster c e) = e"
| "returned_error (Call_CanOperate cfg ok e) = e"
| "returned_error (Call_NewStdClientSet cfg e) = e"
| "returned_error (Call_NewOpenIDConnectManager c cfg e) = e"
| "returned_error (Call_CheckProviderExists c b e) = e"
| "returned_error (Log_Warning w) = None"
| "returned_error (Call_NewStackManager cfg) = None"
| "returned_error (Call_SetExcludeExistingFilter c sas ov e) = e"
| "returned_error (Call_FilterMatching sas out) = None"
| "returned_error (Call_LogInfo sas) = None"
| "returned_error (Call_LogObj cfg e) = e"
| "returned_error (Call_CreateIAMServiceAccount sas plan e) = e"

text \<open>The contexts and the configurations a call received.\<close>

fun contexts_of :: "event \<Rightarrow> go_context list" where
  "contexts_of (Call_NewProviderForExistingCluster c e) = [c]"
| "contexts_of (Call_NewOpenIDConnectManager c cfg e) = [c]"
| "contexts_of (Call_CheckProviderExists c b e) = [c]"
| "contexts_of (Call_SetExcludeExistingFilter c sas ov e) = [c]"
| "contexts_of ev = []"

fun configs_of :: "event \<Rightarrow> cluster_config list" where
  "configs_of (Call_CanOperate cfg ok e) = [cfg]"
| "configs_of (Call_NewStdClientSet cfg e) = [cfg]"
| "configs_of (Call_NewOpenIDConnectManager c cfg e) = [cfg]"
| "configs_of (Call_NewStackManager cfg) = [cfg]"
| "configs_of (Call_LogObj cfg e) = [cfg]"
| "configs_of ev = []"

text \<open>The steps of a run in which nothing fails, in the order of the source.\<close>

definition pipeline :: "bool \<Rightarrow> bool \<Rightarrow> step list" where
  "pipeline roleOnly overrideExistingServiceAccounts =
     [S_Load, S_NewProviderForExistingCluster, S_CanOperate, S_NewStdClientSet,
      S_NewOpenIDConnectManager, S_CheckProviderExists, S_NewStackManager,
      S_SetExcludeExistingFilter, S_FilterMatching, S_LogInfo]
     @ map S_Warning (mode_warnings roleOnly overrideExistingServiceAccounts)
     @ [S_LogObj, S_CreateIAMServiceAccount]"

text \<open>The mode a logged warning announces.\<close>

fun announced_mode :: "event \<Rightarrow> mode option" where
  "announced_mode (Log_Warning Warn_role_only) = Some Role_only"
| "announced_mode (Log_Warning Warn_override_updates_metadata) = Some Override_existing"
| "announced_mode (Log_Warning Warn_existing_excluded) = Some Default_mode"
| "announced_mode ev = None"

text \<open>
  The configuration that the run works on once lines 78 to 87 are done: the one the
  loader left in the command, with the thumbprint assigned.
\<close>

definition loaded_config :: "'f collaborators \<Rightarrow> string \<Rightarrow> cmd \<Rightarrow> cluster_config" where
  "loaded_config env oIDCThumbprint cmd0 =
     assign_thumbprint oIDCThumbprint
       (ClusterConfig (fst (snd (Load env cmd0 (NewIAMServiceAccountFilter env)))))"

text \<open>The operability check said yes and still returned an error value.\<close>

fun operable_with_error :: "event \<Rightarrow> bool" where
  "operable_with_error (Call_CanOperate cfg ok e) = (ok \<and> e \<noteq> None)"
| "operable_with_error ev = False"

text \<open>
  Every step before the mode selection succeeds: what the collaborators answer in a run
  that gets to lines 129 to 138.
\<close>

definition reaches_mode_selection :: "'f collaborators \<Rightarrow> string \<Rightarrow> cmd \<Rightarrow> bool \<Rightarrow> bool" where
  "reaches_mode_selection env oIDCThumbprint cmd0 overrideExistingServiceAccounts =
     (let (err1, cmd1, saFilter) = Load env cmd0 (NewIAMServiceAccountFilter env);
          cfg = loaded_config env oIDCThumbprint cmd0
      in err1 = None
         \<and> NewProviderForExistingCluster env Background = None
         \<and> fst (CanOperate env cfg)
         \<and> NewStdClientSet env cfg = None
         \<and> NewOpenIDConnectManager env Background cfg = None
         \<and> CheckProviderExists env Background = (True, None)
         \<and> fst (SetExcludeExistingFilter env saFilter Background (ServiceAccounts (IAM cfg))
                  overrideExistingServiceAccounts) = None)"

section \<open>Sample collaborators\<close>

definition sample_cmd :: cmd where
  "sample_cmd =
     \<lparr> ClusterConfig =
         \<lparr> Metadata = \<lparr> meta_Name = ''dev'', meta_Region = ''us-west-2'' \<rparr>,
           IAM = \<lparr> WithOIDC = None, OIDCThumbprint = None, ServiceAccounts = [] \<rparr> \<rparr>,
       NameArg = [],
       Plan = False \<rparr>"

text \<open>Every collaborator succeeds; the loader leaves the command as it is.\<close>

definition env_ok :: "unit collaborators" where
  "env_ok =
     \<lparr> NewIAMServiceAccountFilter = (),
       Load = (\<lambda>c f. (None, c, f)),
       NewProviderForExistingCluster = (\<lambda>ctx. None),
       CanOperate = (\<lambda>cfg. (True, None)),
       NewStdClientSet = (\<lambda>cfg. None),
       NewOpenIDConnectManager = (\<lambda>ctx cfg. None),
       CheckProviderExists = (\<lambda>ctx. (True, None)),
       SetExcludeExistingFilter = (\<lambda>f ctx sas ov. (None, f)),
       FilterMatching = (\<lambda>f sas. sas),
       LogObj = (\<lambda>cfg. None),
       CreateIAMServiceAccount = (\<lambda>sas plan. None) \<rparr>"

text \<open>As \<open>env_ok\<close>, but the cluster has no OIDC provider.\<close>

definition env_no_oidc :: "unit collaborators" where
  "env_no_oidc = env_ok\<lparr>CheckProviderExists := (\<lambda>ctx. (False, None))\<rparr>"

text \<open>As \<open>env_ok\<close>, but the operability check says no and gives no error.\<close>

definition env_not_operable_nil :: "unit collaborators" where
  "env_not_operable_nil = env_ok\<lparr>CanOperate := (\<lambda>cfg. (False, None))\<rparr>"

text \<open>As \<open>env_ok\<close>, but the operability check says no and gives an error.\<close>

definition env_not_operable :: "unit collaborators" where
  "env_not_operable =
     env_ok\<lparr>CanOperate := (\<lambda>cfg. (False, Some (Error ''cluster status is CREATING'')))\<rparr>"

text \<open>As \<open>env_ok\<close>, but the operability check says yes and gives an error with it.\<close>

definition env_operable_with_error :: "unit collaborators" where
  "env_operable_with_error =
     env_ok\<lparr>CanOperate := (\<lambda>cfg. (True, Some (Error ''status refresh failed'')))\<rparr>"

text \<open>A caller whose context can be cancelled, and a stand-in for \<^verbatim>\<open>cmdutils.GetNameArg\<close>.\<close>

definition cancellable_caller :: cobra_command where
  "cancellable_caller = \<lparr> cobra_ctx = WithCancel Background \<rparr>"

definition first_arg :: "string list \<Rightarrow> string" where
  "first_arg args = (case args of [] \<Rightarrow> [] | a # rest \<Rightarrow> a)"

section \<open>The existence filter\<close>

text \<open>
  \<^verbatim>\<open>SetExcludeExistingFilter\<close> and \<^verbatim>\<open>FilterMatching\<close> belong to the package
  \<^verbatim>\<open>pkg/ctl/cmdutils/filter\<close>, which is not among the sources at hand. The
  definitions of this section are written from section 4.1 of the specification.
\<close>

text \<open>
  Modelled from the spec: \<^verbatim>\<open>ExistenceState\<close> (the result of the queries that
  \<^verbatim>\<open>SetExcludeExistingFilter\<close> makes): the (namespace, name) pairs present as
  Kubernetes service accounts, and those backed by an IAM role stack.
\<close>

record existence_state =
  k8s_service_accounts :: "(string \<times> string) list"
  iam_role_stacks :: "(string \<times> string) list"

definition empty_existence_state :: existence_state where
  "empty_existence_state = \<lparr> k8s_service_accounts = [], iam_role_stacks = [] \<rparr>"

definition sa_key :: "cluster_iam_service_account \<Rightarrow> string \<times> string" where
  "sa_key s = (sa_Namespace s, sa_Name s)"

text \<open>Modelled from the spec: whether a (namespace, name) pair matches the state.\<close>

definition exists_in :: "existence_state \<Rightarrow> string \<times> string \<Rightarrow> bool" where
  "exists_in existing k \<longleftrightarrow>
     k \<in> set (k8s_service_accounts existing) \<or> k \<in> set (iam_role_stacks existing)"

datatype decision = Create | Skip_Existing | Override_Existing

text \<open>Modelled from the spec: the \<^verbatim>\<open>ReconciliationDecision\<close> for one desired spec.\<close>

definition decide :: "existence_state \<Rightarrow> bool \<Rightarrow> cluster_iam_service_account \<Rightarrow> decision" where
  "decide existing override s =
     (if \<not> exists_in existing (sa_key s) then Create
      else if \<not> override then Skip_Existing
      else Override_Existing)"

text \<open>
  Modelled from the spec: \<^verbatim>\<open>computeTargets\<close> of section 4.1, the function that
  \<^verbatim>\<open>FilterMatching\<close> is specified to compute. It walks the desired specs in order.
\<close>

fun computeTargets ::
  "cluster_iam_service_account list \<Rightarrow> existence_state \<Rightarrow> bool \<Rightarrow> cluster_iam_service_account list"
  where
  "computeTargets [] existing override = []"
| "computeTargets (s # desired) existing override =
     (case decide existing override s of
        Create \<Rightarrow> s # computeTargets desired existing override
      | Skip_Existing \<Rightarrow> computeTargets desired existing override
      | Override_Existing \<Rightarrow> s # computeTargets desired existing override)"

definition sa_a :: cluster_iam_service_account where
  "sa_a = \<lparr> sa_Name = ''a'', sa_Namespace = ''default'', sa_AttachPolicyARNs = [],
            sa_AttachRoleARN = [], sa_RoleName = [], sa_RoleOnly = Some False, sa_Tags = Map.empty \<rparr>"

definition sa_b :: cluster_iam_service_account where
  "sa_b = \<lparr> sa_Name = ''b'', sa_Namespace = ''kube-system'', sa_AttachPolicyARNs = [],
            sa_AttachRoleARN = [], sa_RoleName = [], sa_RoleOnly = Some False, sa_Tags = Map.empty \<rparr>"

definition a_exists :: existence_state where
  "a_exists = \<lparr> k8s_service_accounts = [(''default'', ''a'')], iam_role_stacks = [] \<rparr>"

section \<open>Case analysis of a run\<close>

text \<open>
  Every run ends in one of ten ways. A property of all runs is proved by showing it of
  the ten traces.
\<close>

lemma after_gate_cases:
  fixes P :: "event list \<Rightarrow> error option \<Rightarrow> bool"
  assumes "\<And>e.
      P [Call_NewStackManager cfg,
         Call_SetExcludeExistingFilter ctx (ServiceAccounts (IAM cfg)) ov (Some e)] (Some e)"
    and "\<And>out e.
      P ([Call_NewStackManager cfg,
          Call_SetExcludeExistingFilter ctx (ServiceAccounts (IAM cfg)) ov None,
          Call_FilterMatching (ServiceAccounts (IAM cfg)) out,
          Call_LogInfo (ServiceAccounts (IAM cfg))]
         @ map Log_Warning (mode_warnings ro ov)
         @ [Call_LogObj cfg (Some e)]) (Some e)"
    and "\<And>out plan r.
      P ([Call_NewStackManager cfg,
          Call_SetExcludeExistingFilter ctx (ServiceAccounts (IAM cfg)) ov None,
          Call_FilterMatching (ServiceAccounts (IAM cfg)) out,
          Call_LogInfo (ServiceAccounts (IAM cfg))]
         @ map Log_Warning (mode_warnings ro ov)
         @ [Call_LogObj cfg None, Call_CreateIAMServiceAccount out plan r]) r"
  shows "case after_gate env ctx cmd cfg f ov ro of (tr, res) \<Rightarrow> P tr res"
  using assms by (auto simp add: after_gate_def Let_def split: prod.split)

lemma oidc_gate_cases:
  fixes P :: "event list \<Rightarrow> error option \<Rightarrow> bool"
  assumes "\<And>e. P [Call_NewStdClientSet cfg (Some e)] (Some e)"
    and "\<And>e. P [Call_NewStdClientSet cfg None,
                 Call_NewOpenIDConnectManager ctx cfg (Some e)] (Some e)"
    and "\<And>b e. P [Call_NewStdClientSet cfg None,
                   Call_NewOpenIDConnectManager ctx cfg None,
                   Call_CheckProviderExists ctx b (Some e)] (Some e)"
    and "P [Call_NewStdClientSet cfg None,
            Call_NewOpenIDConnectManager ctx cfg None,
            Call_CheckProviderExists ctx False None,
            Log_Warning (Warn_no_oidc_provider (meta_Region (Metadata (ClusterConfig cmd)))
                                               (meta_Name (Metadata (ClusterConfig cmd))))]
           (Some (Error ''unable to create iamserviceaccount(s) without IAM OIDC provider enabled''))"
    and "case after_gate env ctx cmd cfg f ov ro of (tr, res) \<Rightarrow>
           P ([Call_NewStdClientSet cfg None,
               Call_NewOpenIDConnectManager ctx cfg None,
               Call_CheckProviderExists ctx True None] @ tr) res"
  shows "case oidc_gate env ctx cmd cfg f ov ro of (tr, res) \<Rightarrow> P tr res"
  using assms by (auto simp add: oidc_gate_def Let_def split: prod.split)

lemma doCreate_cases:
  fixes P :: "event list \<Rightarrow> error option \<Rightarrow> bool"
  assumes load_failed: "\<And>e. P [Call_Load (Some e)] (Some e)"
    and provider_failed: "\<And>e.
      P [Call_Load None, Call_NewProviderForExistingCluster Background (Some e)] (Some e)"
    and not_operable: "\<And>cfg err. cfg = loaded_config env t cmd0 \<Longrightarrow>
      P [Call_Load None, Call_NewProviderForExistingCluster Background None,
         Call_CanOperate cfg False err] err"
    and client_set_failed: "\<And>cfg e3 e. cfg = loaded_config env t cmd0 \<Longrightarrow>
      P [Call_Load None, Call_NewProviderForExistingCluster Background None,
         Call_CanOperate cfg True e3, Call_NewStdClientSet cfg (Some e)] (Some e)"
    and oidc_manager_failed: "\<And>cfg e3 e. cfg = loaded_config env t cmd0 \<Longrightarrow>
      P [Call_Load None, Call_NewProviderForExistingCluster Background None,
         Call_CanOperate cfg True e3, Call_NewStdClientSet cfg None,
         Call_NewOpenIDConnectManager Background cfg (Some e)] (Some e)"
    and check_failed: "\<And>cfg e3 b e. cfg = loaded_config env t cmd0 \<Longrightarrow>
      P [Call_Load None, Call_NewProviderForExistingCluster Background None,
         Call_CanOperate cfg True e3, Call_NewStdClientSet cfg None,
         Call_NewOpenIDConnectManager Background cfg None,
         Call_CheckProviderExists Background b (Some e)] (Some e)"
    and provider_absent: "\<And>cfg e3. cfg = loaded_config env t cmd0 \<Longrightarrow>
      P [Call_Load None, Call_NewProviderForExistingCluster Background None,
         Call_CanOperate cfg True e3, Call_NewStdClientSet cfg None,
         Call_NewOpenIDConnectManager Background cfg None,
         Call_CheckProviderExists Background False None,
         Log_Warning (Warn_no_oidc_provider (meta_Region (Metadata cfg)) (meta_Name (Metadata cfg)))]
        (Some (Error ''unable to create iamserviceaccount(s) without IAM OIDC provider enabled''))"
    and exclude_failed: "\<And>cfg e3 e. cfg = loaded_config env t cmd0 \<Longrightarrow>
      P [Call_Load None, Call_NewProviderForExistingCluster Background None,
         Call_CanOperate cfg True e3, Call_NewStdClientSet cfg None,
         Call_NewOpenIDConnectManager Background cfg None,
         Call_CheckProviderExists Background True None,
         Call_NewStackManager cfg,
         Call_SetExcludeExistingFilter Background (ServiceAccounts (IAM cfg)) ov (Some e)] (Some e)"
    and log_obj_failed: "\<And>cfg e3 out e. cfg = loaded_config env t cmd0 \<Longrightarrow>
      P ([Call_Load None, Call_NewProviderForExistingCluster Background None,
          Call_CanOperate cfg True e3, Call_NewStdClientSet cfg None,
          Call_NewOpenIDConnectManager Background cfg None,
          Call_CheckProviderExists Background True None,
          Call_NewStackManager cfg,
          Call_SetExcludeExistingFilter Background (ServiceAccounts (IAM cfg)) ov None,
          Call_FilterMatching (ServiceAccounts (IAM cfg)) out,
          Call_LogInfo (ServiceAccounts (IAM cfg))]
         @ map Log_Warning (mode_warnings ro ov)
         @ [Call_LogObj cfg (Some e)]) (Some e)"
    and delegated: "\<And>cfg e3 out plan r. cfg = loaded_config env t cmd0 \<Longrightarrow>
      P ([Call_Load None, Call_NewProviderForExistingCluster Background None,
          Call_CanOperate cfg True e3, Call_NewStdClientSet cfg None,
          Call_NewOpenIDConnectManager Background cfg None,
          Call_CheckProviderExists Background True None,
          Call_NewStackManager cfg,
          Call_SetExcludeExistingFilter Background (ServiceAccounts (IAM cfg)) ov None,
          Call_FilterMatching (ServiceAccounts (IAM cfg)) out,
          Call_LogInfo (ServiceAccounts (IAM cfg))]
         @ map Log_Warning (mode_warnings ro ov)
         @ [Call_LogObj cfg None, Call_CreateIAMServiceAccount out plan r]) r"
  shows "case doCreateIAMServiceAccount env t cmd0 ov ro of (tr, res) \<Rightarrow> P tr res"
proof -
  obtain e1 cmd1 f where L: "Load env cmd0 (NewIAMServiceAccountFilter env) = (e1, cmd1, f)"
    by (cases "Load env cmd0 (NewIAMServiceAccountFilter env)") auto
  define cfg where "cfg = assign_thumbprint t (ClusterConfig cmd1)"
  have cfg: "cfg = loaded_config env t cmd0"
    by (simp add: loaded_config_def L cfg_def)
  obtain ok e3 where C: "CanOperate env cfg = (ok, e3)"
    by (cases "CanOperate env cfg") auto
  let ?pre = "[Call_Load None, Call_NewProviderForExistingCluster Background None,
               Call_CanOperate cfg True e3]"
  let ?cmd = "cmd1\<lparr>ClusterConfig := cfg\<rparr>"
  have A: "case after_gate env Background ?cmd cfg f ov ro of (tr, res) \<Rightarrow>
             P (?pre @ [Call_NewStdClientSet cfg None,
                        Call_NewOpenIDConnectManager Background cfg None,
                        Call_CheckProviderExists Background True None] @ tr) res"
    using exclude_failed [OF cfg] log_obj_failed [OF cfg] delegated [OF cfg]
    by (intro after_gate_cases) simp_all
  have B: "case oidc_gate env Background ?cmd cfg f ov ro of (tr, res) \<Rightarrow> P (?pre @ tr) res"
    using client_set_failed [OF cfg] oidc_manager_failed [OF cfg] check_failed [OF cfg]
      provider_absent [OF cfg] A
    by (intro oidc_gate_cases) simp_all
  show ?thesis
    using load_failed provider_failed not_operable [OF cfg] B
    by (auto simp add: doCreateIAMServiceAccount_def Let_def L C cfg_def [symmetric]
          split: prod.split)
qed

lemma mode_warnings_cases:
  "mode_warnings ro ov = [Warn_role_only, Warn_override_no_effect] \<and> ro \<and> ov
   \<or> mode_warnings ro ov = [Warn_role_only] \<and> ro \<and> \<not> ov
   \<or> mode_warnings ro ov = [Warn_override_updates_metadata] \<and> \<not> ro \<and> ov
   \<or> mode_warnings ro ov = [Warn_existing_excluded] \<and> \<not> ro \<and> \<not> ov"
  by (simp add: mode_warnings_def)

lemmas run_defs = doCreateIAMServiceAccount_def oidc_gate_def after_gate_def Let_def

lemmas sample_defs = env_ok_def env_no_oidc_def env_not_operable_nil_def env_not_operable_def
  env_operable_with_error_def sample_cmd_def assign_thumbprint_def mode_warnings_def

section \<open>The OIDC provider gate\<close>

text \<open>
  C1. If the existence check of the OIDC provider reports that there is none, the run
  returns an error, and its trace has no call of \<^verbatim>\<open>SetExcludeExistingFilter\<close>, of
  \<^verbatim>\<open>FilterMatching\<close> or of \<^verbatim>\<open>CreateIAMServiceAccount\<close>. This holds for every
  configuration, every collaborator and both flags.
\<close>

theorem oidc_absent_aborts_before_filter:
  "case doCreateIAMServiceAccount env t c ov ro of (tr, res) \<Rightarrow>
     Call_CheckProviderExists ctx False err \<in> set tr \<longrightarrow>
       res \<noteq> None
       \<and> S_SetExcludeExistingFilter \<notin> step_of ` set tr
       \<and> S_FilterMatching \<notin> step_of ` set tr
       \<and> S_CreateIAMServiceAccount \<notin> step_of ` set tr"
  by (rule doCreate_cases) auto

theorem oidc_absent_aborts_before_filter_witness:
  "Call_CheckProviderExists Background False None
     \<in> set (fst (doCreateIAMServiceAccount env_no_oidc [] sample_cmd False False))
   \<and> snd (doCreateIAMServiceAccount env_no_oidc [] sample_cmd False False) =
       Some (Error ''unable to create iamserviceaccount(s) without IAM OIDC provider enabled'')
   \<and> S_SetExcludeExistingFilter
       \<notin> step_of ` set (fst (doCreateIAMServiceAccount env_no_oidc [] sample_cmd False False))
   \<and> S_FilterMatching
       \<notin> step_of ` set (fst (doCreateIAMServiceAccount env_no_oidc [] sample_cmd False False))
   \<and> S_CreateIAMServiceAccount
       \<notin> step_of ` set (fst (doCreateIAMServiceAccount env_no_oidc [] sample_cmd False False))"
  using oidc_absent_aborts_before_filter
    [where env = env_no_oidc and t = "[]" and c = sample_cmd and ov = False and ro = False
       and ctx = Background and err = None]
  by (simp add: run_defs sample_defs)

section \<open>Order of the steps and propagation of errors\<close>


text \<open>
  What holds of every run, whatever the collaborators answer: its steps are an initial
  segment of the pipeline (or the first six steps followed by the gate's diagnostic), no
  step runs twice, and a call that returns an error, other than an operability check
  that says yes, is the last event of the run and its error is what the run returns.
\<close>

theorem steps_in_order_errors_abort:
  "case doCreateIAMServiceAccount env t c ov ro of (tr, res) \<Rightarrow>
     (prefix (map step_of tr) (pipeline ro ov)
      \<or> (\<exists>region name. map step_of tr =
            take 6 (pipeline ro ov) @ [S_Warning (Warn_no_oidc_provider region name)]))
     \<and> distinct (map step_of tr)
     \<and> (\<forall>ev \<in> set tr. returned_error ev \<noteq> None \<and> \<not> operable_with_error ev \<longrightarrow>
           ev = last tr \<and> res = returned_error ev)"
  by (rule doCreate_cases) (use mode_warnings_cases [of ro ov] in \<open>auto simp add: pipeline_def\<close>)

theorem steps_in_order_errors_abort_witness:
  "map step_of (fst (doCreateIAMServiceAccount env_not_operable [] sample_cmd True False))
     = take 3 (pipeline False True)
   \<and> returned_error (last (fst (doCreateIAMServiceAccount env_not_operable [] sample_cmd True False)))
     = Some (Error ''cluster status is CREATING'')
   \<and> snd (doCreateIAMServiceAccount env_not_operable [] sample_cmd True False)
     = Some (Error ''cluster status is CREATING'')"
  using steps_in_order_errors_abort
    [where env = env_not_operable and t = "[]" and c = sample_cmd and ov = True and ro = False]
  by (simp add: run_defs sample_defs pipeline_def)

text \<open>
  A run in which every collaborator succeeds executes the whole pipeline: its steps are
  exactly the pipeline, its last event is the delegation of the filtered accounts with
  the plan flag, and it returns what the delegation returned.
\<close>

theorem run_reaches_delegation:
  assumes "Load env c (NewIAMServiceAccountFilter env) = (None, cmd1, f)"
    and "cfg = assign_thumbprint t (ClusterConfig cmd1)"
    and "NewProviderForExistingCluster env Background = None"
    and "CanOperate env cfg = (True, e3)"
    and "NewStdClientSet env cfg = None"
    and "NewOpenIDConnectManager env Background cfg = None"
    and "CheckProviderExists env Background = (True, None)"
    and "SetExcludeExistingFilter env f Background (ServiceAccounts (IAM cfg)) ov = (None, f')"
    and "LogObj env cfg = None"
    and "targets = FilterMatching env f' (ServiceAccounts (IAM cfg))"
  shows "map step_of (fst (doCreateIAMServiceAccount env t c ov ro)) = pipeline ro ov
    \<and> last (fst (doCreateIAMServiceAccount env t c ov ro)) =
        Call_CreateIAMServiceAccount targets (Plan cmd1)
          (CreateIAMServiceAccount env targets (Plan cmd1))
    \<and> snd (doCreateIAMServiceAccount env t c ov ro) =
        CreateIAMServiceAccount env targets (Plan cmd1)"
  using assms by (simp add: run_defs pipeline_def)

theorem run_reaches_delegation_witness:
  "map step_of (fst (doCreateIAMServiceAccount env_ok [] sample_cmd True True)) =
     pipeline True True
   \<and> last (fst (doCreateIAMServiceAccount env_ok [] sample_cmd True True)) =
       Call_CreateIAMServiceAccount [] False None
   \<and> snd (doCreateIAMServiceAccount env_ok [] sample_cmd True True) = None"
  using run_reaches_delegation
    [where env = env_ok and c = sample_cmd and ?cmd1.0 = sample_cmd and f = "()" and f' = "()"
       and t = "[]" and cfg = "ClusterConfig sample_cmd" and ov = True and ro = True
       and ?e3.0 = None and targets = "[]"]
  by (simp add: run_defs sample_defs pipeline_def)

section \<open>Mode selection\<close>

lemma after_gate_logs_iff:
  "(S_LogInfo \<in> step_of ` set (fst (after_gate env ctx cmd cfg f ov ro)))
     = (fst (SetExcludeExistingFilter env f ctx (ServiceAccounts (IAM cfg)) ov) = None)"
  by (auto simp add: after_gate_def Let_def case_prod_beta)

lemma oidc_gate_logs_iff:
  "(S_LogInfo \<in> step_of ` set (fst (oidc_gate env ctx cmd cfg f ov ro)))
     = (NewStdClientSet env cfg = None
        \<and> NewOpenIDConnectManager env ctx cfg = None
        \<and> CheckProviderExists env ctx = (True, None)
        \<and> fst (SetExcludeExistingFilter env f ctx (ServiceAccounts (IAM cfg)) ov) = None)"
  by (auto simp add: oidc_gate_def Let_def case_prod_beta after_gate_logs_iff image_Un
        prod_eq_iff)

lemma mode_step_reached_iff:
  "(S_LogInfo \<in> step_of ` set (fst (doCreateIAMServiceAccount env t c ov ro)))
     = reaches_mode_selection env t c ov"
  by (auto simp add: doCreateIAMServiceAccount_def Let_def case_prod_beta oidc_gate_logs_iff
        reaches_mode_selection_def loaded_config_def image_Un)

text \<open>
  C4. The warnings of lines 129 to 138 announce exactly one mode, role-only before
  override before default; with both flags set the mode is role-only and the warning that
  the override has no effect is logged exactly once. A run in which every step before
  the mode selection succeeds announces exactly that one mode, and logs the no-effect
  warning once when both flags are set and not at all otherwise; a run in which an
  earlier step fails announces no mode.
\<close>

theorem mode_selection_priority:
  "List.map_filter announced_mode (map Log_Warning (mode_warnings ro ov)) =
     [if ro then Role_only else if ov then Override_existing else Default_mode]
   \<and> List.map_filter announced_mode (map Log_Warning (mode_warnings True True)) = [Role_only]
   \<and> count_list (mode_warnings True True) Warn_override_no_effect = 1
   \<and> (case doCreateIAMServiceAccount env t c ov ro of (tr, res) \<Rightarrow>
        List.map_filter announced_mode tr =
          (if reaches_mode_selection env t c ov
           then [if ro then Role_only else if ov then Override_existing else Default_mode]
           else [])
        \<and> count_list tr (Log_Warning Warn_override_no_effect) =
          (if reaches_mode_selection env t c ov \<and> ro \<and> ov then 1 else 0))"
proof -
  have "case doCreateIAMServiceAccount env t c ov ro of (tr, res) \<Rightarrow>
        List.map_filter announced_mode tr =
          (if S_LogInfo \<in> step_of ` set tr
           then [if ro then Role_only else if ov then Override_existing else Default_mode]
           else [])
        \<and> count_list tr (Log_Warning Warn_override_no_effect) =
          (if S_LogInfo \<in> step_of ` set tr \<and> ro \<and> ov then 1 else 0)"
    by (rule doCreate_cases) (simp_all add: mode_warnings_def List.map_filter_def)
  with mode_step_reached_iff [of env t c ov ro] show ?thesis
    by (simp add: mode_warnings_def List.map_filter_def case_prod_beta)
qed

theorem mode_selection_priority_witness:
  "reaches_mode_selection env_ok [] sample_cmd True
   \<and> List.map_filter announced_mode
       (fst (doCreateIAMServiceAccount env_ok [] sample_cmd True True)) = [Role_only]
   \<and> count_list (fst (doCreateIAMServiceAccount env_ok [] sample_cmd True True))
       (Log_Warning Warn_override_no_effect) = 1
   \<and> List.map_filter announced_mode
       (fst (doCreateIAMServiceAccount env_no_oidc [] sample_cmd True True)) = []"
  using mode_selection_priority
      [where env = env_ok and t = "[]" and c = sample_cmd and ov = True and ro = True]
    mode_selection_priority
      [where env = env_no_oidc and t = "[]" and c = sample_cmd and ov = True and ro = True]
  by (simp add: run_defs sample_defs reaches_mode_selection_def loaded_config_def
        List.map_filter_def)

section \<open>The operability check\<close>


text \<open>
  What holds of every run: when the operability check answers \<^verbatim>\<open>ok = false\<close> the
  run stops there, the check being its last event, and returns the error value that the
  check supplied.
\<close>

theorem not_operable_aborts:
  "case doCreateIAMServiceAccount env t c ov ro of (tr, res) \<Rightarrow>
     Call_CanOperate cfg False err \<in> set tr \<longrightarrow>
       last tr = Call_CanOperate cfg False err \<and> res = err"
  by (rule doCreate_cases) auto

theorem not_operable_aborts_witness:
  "Call_CanOperate (ClusterConfig sample_cmd) False (Some (Error ''cluster status is CREATING''))
     \<in> set (fst (doCreateIAMServiceAccount env_not_operable [] sample_cmd False False))
   \<and> last (fst (doCreateIAMServiceAccount env_not_operable [] sample_cmd False False)) =
       Call_CanOperate (ClusterConfig sample_cmd) False (Some (Error ''cluster status is CREATING''))
   \<and> snd (doCreateIAMServiceAccount env_not_operable [] sample_cmd False False) =
       Some (Error ''cluster status is CREATING'')"
  using not_operable_aborts
    [where env = env_not_operable and t = "[]" and c = sample_cmd and ov = False and ro = False
       and cfg = "ClusterConfig sample_cmd"
       and err = "Some (Error ''cluster status is CREATING'')"]
  by (simp add: run_defs sample_defs)

section \<open>The context\<close>

text \<open>
  C6, as the claim states it, fails: the run is not given a context. Line 91 makes a
  fresh one with \<^verbatim>\<open>context.Background()\<close>, and the command object through which
  the caller's context arrives is discarded by the closure. A caller whose context can be
  cancelled sees the provider built with the background context.
\<close>

theorem context_is_not_the_callers:
  "contexts_of (fst (RunE env_ok first_arg sample_cmd (ClusterConfig sample_cmd) []
                      cancellable_caller []) ! 1) = [Background]
   \<and> cobra_ctx cancellable_caller \<noteq> Background
   \<and> carries_signal (cobra_ctx cancellable_caller)
   \<and> \<not> carries_signal Background"
  by (simp add: RunE_def run_defs sample_defs cancellable_caller_def parse_flags_def
        registered_defaults_def setup_config_def)

text \<open>
  C6, amended. One context is made at the start of the run, by
  \<^verbatim>\<open>context.Background()\<close>, and every call that takes a context (provider
  construction, OIDC manager construction, OIDC provider check, existence query) receives
  that one; the delegation takes no context. What the caller passes to the closure has no
  influence on the run.
\<close>

theorem context_is_background:
  "(case doCreateIAMServiceAccount env t c ov ro of (tr, res) \<Rightarrow>
      set (concat (map contexts_of tr)) \<subseteq> {Background})
   \<and> RunE env GetNameArg c cfg0 flag_args cobra args =
     RunE env GetNameArg c cfg0 flag_args cobra' args"
proof -
  have "case doCreateIAMServiceAccount env t c ov ro of (tr, res) \<Rightarrow>
          set (concat (map contexts_of tr)) \<subseteq> {Background}"
    by (rule doCreate_cases) (simp_all add: comp_def)
  then show ?thesis
    by (simp add: RunE_def)
qed

section \<open>The thumbprint\<close>

text \<open>
  C9. The thumbprint field of the configuration is assigned exactly when the
  package-level variable is not empty: with an empty variable the configuration is left
  as the loader made it, otherwise the field holds the variable and every other field is
  as before. Every later step of the run receives that configuration.
\<close>

theorem thumbprint_assigned_iff_nonempty:
  "(t = [] \<longrightarrow> assign_thumbprint t cfg = cfg)
   \<and> (t \<noteq> [] \<longrightarrow> OIDCThumbprint (IAM (assign_thumbprint t cfg)) = Some t)
   \<and> Metadata (assign_thumbprint t cfg) = Metadata cfg
   \<and> WithOIDC (IAM (assign_thumbprint t cfg)) = WithOIDC (IAM cfg)
   \<and> ServiceAccounts (IAM (assign_thumbprint t cfg)) = ServiceAccounts (IAM cfg)
   \<and> (case doCreateIAMServiceAccount env t c ov ro of (tr, res) \<Rightarrow>
        set (concat (map configs_of tr)) \<subseteq> {loaded_config env t c})"
proof -
  have "case doCreateIAMServiceAccount env t c ov ro of (tr, res) \<Rightarrow>
          set (concat (map configs_of tr)) \<subseteq> {loaded_config env t c}"
    by (rule doCreate_cases) (simp_all add: comp_def)
  then show ?thesis
    by (simp add: assign_thumbprint_def)
qed

theorem thumbprint_assigned_iff_nonempty_witness:
  "assign_thumbprint [] (ClusterConfig sample_cmd) = ClusterConfig sample_cmd
   \<and> OIDCThumbprint (IAM (assign_thumbprint ''9e99a48a'' (ClusterConfig sample_cmd)))
       = Some ''9e99a48a''
   \<and> Metadata (assign_thumbprint ''9e99a48a'' (ClusterConfig sample_cmd))
       = Metadata (ClusterConfig sample_cmd)
   \<and> configs_of (fst (doCreateIAMServiceAccount env_ok ''9e99a48a'' sample_cmd False False) ! 2)
       = [loaded_config env_ok ''9e99a48a'' sample_cmd]"
  using thumbprint_assigned_iff_nonempty
      [where t = "[]" and cfg = "ClusterConfig sample_cmd" and env = env_ok and c = sample_cmd
         and ov = False and ro = False]
    thumbprint_assigned_iff_nonempty
      [where t = "''9e99a48a''" and cfg = "ClusterConfig sample_cmd" and env = env_ok
         and c = sample_cmd and ov = False and ro = False]
  by (simp add: run_defs sample_defs loaded_config_def)

section \<open>Flags and command set-up\<close>

lemma fold_set_flag_namespace:
  "\<forall>a \<in> set args. \<not> is_namespace_flag a \<Longrightarrow>
     v_namespace (fold set_flag args v) = v_namespace v"
proof (induction args arbitrary: v)
  case Nil
  show ?case by simp
next
  case (Cons a args)
  then show ?case by (cases a) simp_all
qed

lemma fold_set_flag_role_only:
  "\<forall>a \<in> set args. \<not> is_role_only_flag a \<Longrightarrow>
     v_role_only (fold set_flag args v) = v_role_only v"
proof (induction args arbitrary: v)
  case Nil
  show ?case by simp
next
  case (Cons a args)
  then show ?case by (cases a) simp_all
qed

lemma fold_set_flag_override:
  "\<forall>a \<in> set args. \<not> is_override_flag a \<Longrightarrow>
     v_override_existing_serviceaccounts (fold set_flag args v) =
       v_override_existing_serviceaccounts v"
proof (induction args arbitrary: v)
  case Nil
  show ?case by simp
next
  case (Cons a args)
  then show ?case by (cases a) simp_all
qed

text \<open>
  C8. The registered defaults are \<^verbatim>\<open>"default"\<close> for \<^verbatim>\<open>--namespace\<close> and false for
  \<^verbatim>\<open>--role-only\<close> and \<^verbatim>\<open>--override-existing-serviceaccounts\<close>. A command line
  without a given flag leaves its variable at the default, whatever other flags it has:
  the service account built has namespace \<^verbatim>\<open>"default"\<close> and \<^verbatim>\<open>RoleOnly\<close> false, and
  the run function is called with both booleans false.
\<close>

theorem flag_defaults:
  "v_namespace registered_defaults = ''default''
   \<and> v_role_only registered_defaults = False
   \<and> v_override_existing_serviceaccounts registered_defaults = False
   \<and> ((\<forall>a \<in> set args. \<not> is_namespace_flag a) \<longrightarrow>
        sa_Namespace (serviceAccount (parse_flags args)) = ''default'')
   \<and> ((\<forall>a \<in> set args. \<not> is_role_only_flag a) \<longrightarrow>
        sa_RoleOnly (serviceAccount (parse_flags args)) = Some False
        \<and> v_role_only (parse_flags args) = False)
   \<and> ((\<forall>a \<in> set args. \<not> is_override_flag a) \<longrightarrow>
        v_override_existing_serviceaccounts (parse_flags args) = False)
   \<and> ((\<forall>a \<in> set args. \<not> is_role_only_flag a \<and> \<not> is_override_flag a) \<longrightarrow>
        RunE env GetNameArg c cfg0 args cobra rest =
          doCreateIAMServiceAccount env (v_oidc_thumbprint (parse_flags args))
            (c\<lparr>ClusterConfig := setup_config cfg0 (parse_flags args), NameArg := GetNameArg rest\<rparr>)
            False False)"
proof -
  have ns: "(\<forall>a \<in> set args. \<not> is_namespace_flag a) \<longrightarrow>
      v_namespace (parse_flags args) = ''default''"
    by (simp add: parse_flags_def fold_set_flag_namespace registered_defaults_def)
  have ro: "(\<forall>a \<in> set args. \<not> is_role_only_flag a) \<longrightarrow> v_role_only (parse_flags args) = False"
    by (simp add: parse_flags_def fold_set_flag_role_only registered_defaults_def)
  have ov: "(\<forall>a \<in> set args. \<not> is_override_flag a) \<longrightarrow>
      v_override_existing_serviceaccounts (parse_flags args) = False"
    by (simp add: parse_flags_def fold_set_flag_override registered_defaults_def)
  from ns ro ov show ?thesis
    by (simp add: serviceAccount_def registered_defaults_def RunE_def Let_def)
qed

theorem flag_defaults_witness:
  "sa_Namespace (serviceAccount (parse_flags [Flag_name ''app'', Flag_tags [(''team'', ''a'')]]))
     = ''default''
   \<and> sa_RoleOnly (serviceAccount (parse_flags [Flag_name ''app'', Flag_tags [(''team'', ''a'')]]))
     = Some False
   \<and> v_override_existing_serviceaccounts
       (parse_flags [Flag_name ''app'', Flag_tags [(''team'', ''a'')]]) = False
   \<and> sa_Name (serviceAccount (parse_flags [Flag_name ''app'', Flag_tags [(''team'', ''a'')]]))
     = ''app''"
  using flag_defaults [where args = "[Flag_name ''app'', Flag_tags [(''team'', ''a'')]]"]
  by (simp add: parse_flags_def registered_defaults_def serviceAccount_def)

text \<open>
  C10. Whatever the flags, the configuration that the run function receives has
  \<^verbatim>\<open>WithOIDC\<close> enabled and has exactly one service account more than
  \<^verbatim>\<open>api.NewClusterConfig()\<close> gave it, the last one, whose fields are the flag
  variables: the name and the namespace given last on the command line are its name and
  namespace.
\<close>

theorem setup_enables_oidc_and_appends_one:
  "WithOIDC (IAM (setup_config cfg0 (parse_flags args))) = Some True
   \<and> ServiceAccounts (IAM (setup_config cfg0 (parse_flags args))) =
       ServiceAccounts (IAM cfg0) @ [serviceAccount (parse_flags args)]
   \<and> length (ServiceAccounts (IAM (setup_config cfg0 (parse_flags args)))) =
       Suc (length (ServiceAccounts (IAM cfg0)))
   \<and> sa_Name (last (ServiceAccounts (IAM (setup_config cfg0 (parse_flags (args @ [Flag_name n]))))))
       = n
   \<and> sa_Namespace
       (last (ServiceAccounts (IAM (setup_config cfg0 (parse_flags (args @ [Flag_namespace ns]))))))
       = ns
   \<and> RunE env GetNameArg c cfg0 args cobra rest =
       doCreateIAMServiceAccount env (v_oidc_thumbprint (parse_flags args))
         (c\<lparr>ClusterConfig := setup_config cfg0 (parse_flags args), NameArg := GetNameArg rest\<rparr>)
         (v_override_existing_serviceaccounts (parse_flags args)) (v_role_only (parse_flags args))"
  by (simp add: setup_config_def parse_flags_def serviceAccount_def RunE_def Let_def)

section \<open>Properties of the existence filter\<close>

lemma computeTargets_filter:
  "computeTargets desired existing override =
     filter (\<lambda>s. \<not> exists_in existing (sa_key s) \<or> override) desired"
  by (induction desired) (auto simp add: decide_def)

text \<open>
  C2. The filter keeps a desired spec exactly when its (namespace, name) pair is absent
  from the existence state or the override flag is set; the output is the input with the
  other specs removed, in the same order, and with an empty existence state it is the
  whole input.
\<close>

theorem computeTargets_includes_iff:
  "(s \<in> set (computeTargets desired existing override) \<longleftrightarrow>
      s \<in> set desired \<and> (\<not> exists_in existing (sa_key s) \<or> override))
   \<and> computeTargets desired existing override =
       filter (\<lambda>s. \<not> exists_in existing (sa_key s) \<or> override) desired
   \<and> subseq (computeTargets desired existing override) desired
   \<and> computeTargets desired empty_existence_state override = desired"
  by (auto simp add: computeTargets_filter exists_in_def empty_existence_state_def)

theorem computeTargets_includes_iff_witness:
  "sa_b \<in> set (computeTargets [sa_a, sa_b] a_exists False)
   \<and> sa_a \<notin> set (computeTargets [sa_a, sa_b] a_exists False)
   \<and> sa_a \<in> set (computeTargets [sa_a, sa_b] a_exists True)
   \<and> computeTargets [sa_a, sa_b] a_exists False = [sa_b]
   \<and> computeTargets [sa_a, sa_b] empty_existence_state False = [sa_a, sa_b]"
  using computeTargets_includes_iff
      [where desired = "[sa_a, sa_b]" and existing = a_exists and override = False and s = sa_b]
    computeTargets_includes_iff
      [where desired = "[sa_a, sa_b]" and existing = a_exists and override = False and s = sa_a]
    computeTargets_includes_iff
      [where desired = "[sa_a, sa_b]" and existing = a_exists and override = True and s = sa_a]
  by (simp add: exists_in_def sa_key_def sa_a_def sa_b_def a_exists_def
        empty_existence_state_def)

end
